theory Spec2Isabelle
  imports Complex_Main "HOL-Library.AList"
begin

section \<open>Python values, exceptions and the outside world\<close>

text \<open>
  The values that flow through \<^verbatim>\<open>app.py\<close>: what a JSON body decodes to, what a database
  row holds and what a contact dictionary stores. A Python \<^verbatim>\<open>dict\<close> with string keys is
  an association list in insertion order.
\<close>

datatype pyval =
    PNone
  | PBool bool
  | PInt int
  | PFloat real
  | PStr string
  | PList "pyval list"
  | PDict "(string \<times> pyval) list"

type_synonym pydict = "(string \<times> pyval) list"

text \<open>
  The exception classes the program distinguishes: \<^verbatim>\<open>requests.RequestException\<close>
  (caught by the validator), \<^verbatim>\<open>psycopg2.Error\<close> (caught by the decorator),
  \<^verbatim>\<open>FileNotFoundError\<close> (caught by the generate endpoint), and the others, which only
  the decorator's last clause catches.
\<close>

datatype exn =
    RequestException string
  | Psycopg2Error string
  | FileNotFoundError string
  | TypeError string
  | KeyError string
  | AttributeError string
  | OtherException string

fun is_request_exception :: "exn \<Rightarrow> bool" where
  "is_request_exception (RequestException m) = True"
| "is_request_exception e = False"

fun is_psycopg2_error :: "exn \<Rightarrow> bool" where
  "is_psycopg2_error (Psycopg2Error m) = True"
| "is_psycopg2_error e = False"

text \<open>Python truthiness (\<^verbatim>\<open>bool(v)\<close>) and \<^verbatim>\<open>len(v)\<close>, which raises on a value without length.\<close>

fun truthy :: "pyval \<Rightarrow> bool" where
  "truthy PNone = False"
| "truthy (PBool b) = b"
| "truthy (PInt i) = (i \<noteq> 0)"
| "truthy (PFloat r) = (r \<noteq> 0)"
| "truthy (PStr s) = (s \<noteq> [])"
| "truthy (PList xs) = (xs \<noteq> [])"
| "truthy (PDict kvs) = (kvs \<noteq> [])"

fun py_len :: "pyval \<Rightarrow> exn + nat" where
  "py_len (PStr s) = Inr (length s)"
| "py_len (PList xs) = Inr (length xs)"
| "py_len (PDict kvs) = Inr (length kvs)"
| "py_len v = Inl (TypeError ''object has no len()'')"

text \<open>A configuration value read by \<^verbatim>\<open>os.getenv(name, None)\<close>: a string or \<^verbatim>\<open>None\<close>.\<close>

fun str_truthy :: "string option \<Rightarrow> bool" where
  "str_truthy None = False"
| "str_truthy (Some s) = (s \<noteq> [])"

fun opt_val :: "string option \<Rightarrow> pyval" where
  "opt_val None = PNone"
| "opt_val (Some s) = PStr s"

record request =
  url :: string
  params :: pydict
  timeout :: nat

text \<open>
  A \<^verbatim>\<open>requests.Response\<close>, as far as the program reads it: the status code and the
  outcome of calling \<^verbatim>\<open>response.json()\<close>, which raises on a body that is not JSON.
\<close>

record response =
  status_code :: int
  json :: "exn + pyval"

record config =
  SMARTY_AUTH_ID :: "string option"
  SMARTY_AUTH_TOKEN :: "string option"
  TEMPLATE_STYLE :: string
  TEMPLATES_DIR :: string
  OUTPUT_DIR :: string

text \<open>
  The external collaborators, as ports. \<open>requests_get n r\<close> is the outcome of the
  \<open>n\<close>-th HTTP request (counted from 0) when it is \<open>r\<close>; the store and the file system are
  abstract states with the operations the program performs on them; \<open>random_index\<close> is
  the draw of \<^verbatim>\<open>random.choice\<close>, \<open>now\<close> the formatted clock reading and
  \<open>jinja_render\<close> the template engine.
\<close>

record ('db, 'fs) env =
  app_config :: config
  requests_get :: "nat \<Rightarrow> request \<Rightarrow> exn + response"
  db_select :: "'db \<Rightarrow> exn + pyval list list"
  db_update :: "'db \<Rightarrow> pyval \<Rightarrow> pyval \<Rightarrow> exn + 'db"
  os_makedirs :: "'fs \<Rightarrow> string \<Rightarrow> exn + 'fs"
  os_path_exists :: "'fs \<Rightarrow> string \<Rightarrow> bool"
  read_text :: "'fs \<Rightarrow> string \<Rightarrow> exn + string"
  write_text :: "'fs \<Rightarrow> string \<Rightarrow> string \<Rightarrow> exn + 'fs"
  random_index :: nat
  now :: string
  jinja_render :: "string \<Rightarrow> pydict \<Rightarrow> exn + string"

text \<open>
  The mutable state: the Python heap (dictionary objects and list objects, each behind a
  reference), the store, the file system and the log of HTTP requests issued so far.
\<close>

record ('db, 'fs) world =
  dict_objs :: "nat \<Rightarrow> pydict"
  list_objs :: "nat \<Rightarrow> nat list"
  next_dict :: nat
  next_list :: nat
  store :: 'db
  filesys :: 'fs
  sent :: "request list"

section \<open>Address validator\<close>

definition smarty_request ::
  "pyval \<Rightarrow> pyval \<Rightarrow> pyval \<Rightarrow> pyval \<Rightarrow> string option \<Rightarrow> string option \<Rightarrow> request" where
  "smarty_request address city state zipcode auth_id auth_token =
     \<lparr>url = ''https://us-street.api.smartystreets.com/street-address'',
      params = [(''auth-id'', opt_val auth_id), (''auth-token'', opt_val auth_token),
                (''street'', address), (''city'', city), (''state'', state),
                (''zipcode'', zipcode)],
      timeout = 10\<rparr>"

text \<open>The clause \<^verbatim>\<open>except requests.RequestException\<close> around the whole \<^verbatim>\<open>try\<close> block.\<close>

definition smarty_except :: "exn \<Rightarrow> exn + pyval" where
  "smarty_except e =
     (if is_request_exception e then Inr (PStr ''Validation Failed'') else Inl e)"

definition validate_address_smarty ::
  "('db, 'fs) env \<Rightarrow> ('db, 'fs) world \<Rightarrow> pyval \<Rightarrow> pyval \<Rightarrow> pyval \<Rightarrow> pyval \<Rightarrow>
   string option \<Rightarrow> string option \<Rightarrow> (exn + pyval) \<times> ('db, 'fs) world" where
  "validate_address_smarty e w address city state zipcode auth_id auth_token =
     (if \<not> str_truthy auth_id \<or> \<not> str_truthy auth_token then
        (Inr (PStr ''Not Validated''), w)
      else
        let req = smarty_request address city state zipcode auth_id auth_token;
            w' = w\<lparr>sent := sent w @ [req]\<rparr>
        in (case requests_get e (length (sent w)) req of
              Inl ex \<Rightarrow> (smarty_except ex, w')
            | Inr resp \<Rightarrow>
                if status_code resp = 200 then
                  (case json resp of
                     Inl ex \<Rightarrow> (smarty_except ex, w')
                   | Inr data \<Rightarrow>
                       if truthy data then
                         (case py_len data of
                            Inl ex \<Rightarrow> (smarty_except ex, w')
                          | Inr n \<Rightarrow>
                              if n > 0 then (Inr data, w') else (Inr (PBool False), w'))
                       else (Inr (PBool False), w'))
                else (Inr (PStr ''API Error''), w')))"

section \<open>Heap and dictionary operations\<close>

definition dict_get :: "pydict \<Rightarrow> string \<Rightarrow> pyval \<Rightarrow> pyval" where
  "dict_get d k dflt = (case map_of d k of None \<Rightarrow> dflt | Some v \<Rightarrow> v)"

definition dict_getitem :: "pydict \<Rightarrow> string \<Rightarrow> exn + pyval" where
  "dict_getitem d k = (case map_of d k of None \<Rightarrow> Inl (KeyError k) | Some v \<Rightarrow> Inr v)"

text \<open>\<^verbatim>\<open>dict(pairs)\<close>: a later pair overrides an earlier one with the same key.\<close>

definition py_dict :: "(string \<times> pyval) list \<Rightarrow> pydict" where
  "py_dict ps = fold (\<lambda>(k, v) d. AList.update k v d) ps []"

definition new_dict :: "('db, 'fs) world \<Rightarrow> pydict \<Rightarrow> nat \<times> ('db, 'fs) world" where
  "new_dict w d =
     (next_dict w,
      w\<lparr>dict_objs := (dict_objs w)(next_dict w := d), next_dict := Suc (next_dict w)\<rparr>)"

definition new_list :: "('db, 'fs) world \<Rightarrow> nat list \<Rightarrow> nat \<times> ('db, 'fs) world" where
  "new_list w xs =
     (next_list w,
      w\<lparr>list_objs := (list_objs w)(next_list w := xs), next_list := Suc (next_list w)\<rparr>)"

text \<open>\<^verbatim>\<open>d[k] = v\<close> on the dictionary object behind \<open>c\<close>, and \<^verbatim>\<open>l.append(c)\<close>.\<close>

definition dict_setitem ::
  "('db, 'fs) world \<Rightarrow> nat \<Rightarrow> string \<Rightarrow> pyval \<Rightarrow> ('db, 'fs) world" where
  "dict_setitem w c k v = w\<lparr>dict_objs := (dict_objs w)(c := AList.update k v (dict_objs w c))\<rparr>"

definition list_append :: "('db, 'fs) world \<Rightarrow> nat \<Rightarrow> nat \<Rightarrow> ('db, 'fs) world" where
  "list_append w l c = w\<lparr>list_objs := (list_objs w)(l := list_objs w l @ [c])\<rparr>"

text \<open>What \<^verbatim>\<open>jsonify\<close> and the template engine read through a list of contacts.\<close>

definition snapshot :: "('db, 'fs) world \<Rightarrow> nat \<Rightarrow> pyval" where
  "snapshot w l = PList (map (\<lambda>c. PDict (dict_objs w c)) (list_objs w l))"

section \<open>Contact store accessor\<close>

text \<open>The column names of the \<^verbatim>\<open>SELECT\<close>, as \<^verbatim>\<open>cursor.description\<close> reports them.\<close>

definition columns :: "string list" where
  "columns = [''id'', ''first_name'', ''last_name'', ''address'', ''city'', ''state'',
              ''zipcode'', ''country'', ''valid'']"

fun fetch_rows ::
  "('db, 'fs) world \<Rightarrow> pyval list list \<Rightarrow> nat \<Rightarrow> ('db, 'fs) world" where
  "fetch_rows w [] contacts = w"
| "fetch_rows w (row # rows) contacts =
     (let (contact, w1) = new_dict w (py_dict (zip columns row))
      in fetch_rows (list_append w1 contacts contact) rows contacts)"

definition fetch_contacts ::
  "('db, 'fs) env \<Rightarrow> ('db, 'fs) world \<Rightarrow> (exn + nat) \<times> ('db, 'fs) world" where
  "fetch_contacts e w =
     (case db_select e (store w) of
        Inl ex \<Rightarrow> (Inl ex, w)
      | Inr rows \<Rightarrow>
          let (contacts, w1) = new_list w [] in (Inr contacts, fetch_rows w1 rows contacts))"

definition update_validation_status ::
  "('db, 'fs) env \<Rightarrow> ('db, 'fs) world \<Rightarrow> pyval \<Rightarrow> pyval \<Rightarrow> (exn + unit) \<times> ('db, 'fs) world" where
  "update_validation_status e w contact_id validation_status =
     (case db_update e (store w) contact_id validation_status of
        Inl ex \<Rightarrow> (Inl ex, w)
      | Inr d \<Rightarrow> (Inr (), w\<lparr>store := d\<rparr>))"

section \<open>Template renderer\<close>

definition get_template_files :: "(string \<times> string) list" where
  "get_template_files =
     [(''modern'', ''modern_template.html''), (''dark'', ''dark_template.html''),
      (''neon'', ''neon_template.html''), (''retro'', ''retro_template.html'')]"

text \<open>\<^verbatim>\<open>random.choice(seq)\<close> returns the element at an index drawn below \<^verbatim>\<open>len(seq)\<close>.\<close>

definition random_choice :: "('db, 'fs) env \<Rightarrow> 'a list \<Rightarrow> 'a" where
  "random_choice e xs = xs ! (random_index e mod length xs)"

definition select_template_style :: "('db, 'fs) env \<Rightarrow> pyval \<Rightarrow> pyval" where
  "select_template_style e template_style =
     (let template_files = get_template_files
      in if template_style = PStr ''random'' then
           PStr (random_choice e (map fst template_files))
         else template_style)"

text \<open>\<^verbatim>\<open>os.path.join\<close> of two components (POSIX).\<close>

definition path_join :: "string \<Rightarrow> string \<Rightarrow> string" where
  "path_join a b =
     (if b \<noteq> [] \<and> hd b = CHR ''/'' then b
      else if a = [] \<or> last a = CHR ''/'' then a @ b
      else a @ ''/'' @ b)"

text \<open>A list or a dictionary cannot be a dictionary key: \<^verbatim>\<open>dict.get\<close> raises on it.\<close>

fun hashable :: "pyval \<Rightarrow> bool" where
  "hashable (PList xs) = False"
| "hashable (PDict kvs) = False"
| "hashable v = True"

definition template_filename_of :: "pyval \<Rightarrow> string" where
  "template_filename_of template_style =
     (let template_files = get_template_files;
          dflt = (case map_of template_files ''modern'' of Some f \<Rightarrow> f | None \<Rightarrow> [])
      in case template_style of
           PStr s \<Rightarrow> (case map_of template_files s of Some f \<Rightarrow> f | None \<Rightarrow> dflt)
         | _ \<Rightarrow> dflt)"

definition load_template ::
  "('db, 'fs) env \<Rightarrow> ('db, 'fs) world \<Rightarrow> pyval \<Rightarrow> string \<Rightarrow> exn + string" where
  "load_template e w template_style templates_dir =
     (if \<not> hashable template_style then Inl (TypeError ''unhashable type'')
      else
        let template_filename = template_filename_of template_style;
            template_path = path_join templates_dir template_filename
        in if \<not> os_path_exists e (filesys w) template_path then
             Inl (FileNotFoundError (''Template file not found: '' @ template_path))
           else read_text e (filesys w) template_path)"

definition get_validation_attributes :: "pyval \<Rightarrow> string \<times> string \<times> string" where
  "get_validation_attributes valid_status =
     (if valid_status = PStr ''valid'' then (''valid'', ''valid-badge'', ''Valid Address'')
      else if valid_status = PStr ''invalid'' then
        (''invalid'', ''invalid-badge'', ''Invalid Address'')
      else (''not-validated'', ''not-validated-badge'', ''Not Validated''))"

fun prepare_contacts_loop :: "('db, 'fs) world \<Rightarrow> nat list \<Rightarrow> ('db, 'fs) world" where
  "prepare_contacts_loop w [] = w"
| "prepare_contacts_loop w (contact # rest) =
     (let valid_status = dict_get (dict_objs w contact) ''valid'' (PStr []);
          (css_class, badge_class, validation_text) = get_validation_attributes valid_status;
          w1 = dict_setitem w contact ''css_class'' (PStr css_class);
          w2 = dict_setitem w1 contact ''badge_class'' (PStr badge_class);
          w3 = dict_setitem w2 contact ''validation_text'' (PStr validation_text)
      in prepare_contacts_loop w3 rest)"

definition prepare_contact_data :: "('db, 'fs) world \<Rightarrow> nat \<Rightarrow> nat \<times> ('db, 'fs) world" where
  "prepare_contact_data w contacts =
     (contacts, prepare_contacts_loop w (list_objs w contacts))"

text \<open>
  The dictionary a contact's dictionary \<open>d\<close> has become after one round of the loop of
  \<^verbatim>\<open>prepare_contact_data\<close> (lines 199 to 204).
\<close>

definition annotate :: "pydict \<Rightarrow> pydict" where
  "annotate d =
     (case get_validation_attributes (dict_get d ''valid'' (PStr [])) of
        (css_class, badge_class, validation_text) \<Rightarrow>
          AList.update ''validation_text'' (PStr validation_text)
            (AList.update ''badge_class'' (PStr badge_class)
               (AList.update ''css_class'' (PStr css_class) d)))"

record template_data =
  td_contacts :: nat
  td_timestamp :: string

definition prepare_template_data ::
  "('db, 'fs) env \<Rightarrow> ('db, 'fs) world \<Rightarrow> nat \<Rightarrow> template_data \<times> ('db, 'fs) world" where
  "prepare_template_data e w contacts =
     (let (prepared_contacts, w1) = prepare_contact_data w contacts
      in (\<lparr>td_contacts = prepared_contacts, td_timestamp = now e\<rparr>, w1))"

definition render_custom_template ::
  "('db, 'fs) env \<Rightarrow> ('db, 'fs) world \<Rightarrow> string \<Rightarrow> template_data \<Rightarrow> exn + string" where
  "render_custom_template e w template_content td =
     jinja_render e template_content
       [(''contacts'', snapshot w (td_contacts td)), (''timestamp'', PStr (td_timestamp td))]"

section \<open>HTML file generator\<close>

text \<open>\<^verbatim>\<open>os.path.join\<close> raises \<^verbatim>\<open>TypeError\<close> on a component that is not a string.\<close>

fun py_path_join :: "string \<Rightarrow> pyval \<Rightarrow> exn + string" where
  "py_path_join a (PStr b) = Inr (path_join a b)"
| "py_path_join a v = Inl (TypeError ''expected str, bytes or os.PathLike object'')"

definition generate_html_file ::
  "('db, 'fs) env \<Rightarrow> ('db, 'fs) world \<Rightarrow> nat \<Rightarrow> pyval \<Rightarrow> pyval \<Rightarrow>
   (exn + string \<times> pyval) \<times> ('db, 'fs) world" where
  "generate_html_file e w contacts template_style output_filename =
     (case os_makedirs e (filesys w) (OUTPUT_DIR (app_config e)) of
        Inl ex \<Rightarrow> (Inl ex, w)
      | Inr f1 \<Rightarrow>
          let w1 = w\<lparr>filesys := f1\<rparr>;
              selected_style = select_template_style e template_style
          in (case load_template e w1 selected_style (TEMPLATES_DIR (app_config e)) of
                Inl ex \<Rightarrow> (Inl ex, w1)
              | Inr template_content \<Rightarrow>
                  let (td, w2) = prepare_template_data e w1 contacts
                  in (case render_custom_template e w2 template_content td of
                        Inl ex \<Rightarrow> (Inl ex, w2)
                      | Inr html_content \<Rightarrow>
                          (case py_path_join (OUTPUT_DIR (app_config e)) output_filename of
                             Inl ex \<Rightarrow> (Inl ex, w2)
                           | Inr output_path \<Rightarrow>
                               (case write_text e (filesys w2) output_path html_content of
                                  Inl ex \<Rightarrow> (Inl ex, w2)
                                | Inr f2 \<Rightarrow>
                                    (Inr (output_path, selected_style), w2\<lparr>filesys := f2\<rparr>))))))"

section \<open>HTTP endpoint layer\<close>

record http_response =
  status :: nat
  body :: pyval

definition jsonify :: "nat \<Rightarrow> pydict \<Rightarrow> http_response" where
  "jsonify code d = \<lparr>status = code, body = PDict d\<rparr>"

text \<open>The decorator \<^verbatim>\<open>handle_db_errors\<close>: every exception of the handler becomes a 500.\<close>

definition handle_db_errors ::
  "(('db, 'fs) world \<Rightarrow> (exn + http_response) \<times> ('db, 'fs) world) \<Rightarrow>
   ('db, 'fs) world \<Rightarrow> http_response \<times> ('db, 'fs) world" where
  "handle_db_errors f w =
     (case f w of
        (Inr r, w') \<Rightarrow> (r, w')
      | (Inl ex, w') \<Rightarrow>
          if is_psycopg2_error ex then
            (jsonify 500 [(''error'', PStr ''Database connection failed'')], w')
          else (jsonify 500 [(''error'', PStr ''Internal server error'')], w'))"

text \<open>
  One round of the loop of \<^verbatim>\<open>api_validate_addresses\<close> (lines 289 to 305), for the
  contact behind \<open>contact\<close>; \<open>validated_contacts\<close> is the list being accumulated. The last
  two lookups are those of the log line's f-string.
\<close>

definition validate_contact ::
  "('db, 'fs) env \<Rightarrow> ('db, 'fs) world \<Rightarrow> nat \<Rightarrow> nat \<Rightarrow> (exn + unit) \<times> ('db, 'fs) world" where
  "validate_contact e w contact validated_contacts =
     (case dict_getitem (dict_objs w contact) ''address'' of
        Inl ex \<Rightarrow> (Inl ex, w)
      | Inr address \<Rightarrow>
     (case dict_getitem (dict_objs w contact) ''city'' of
        Inl ex \<Rightarrow> (Inl ex, w)
      | Inr city \<Rightarrow>
     (case dict_getitem (dict_objs w contact) ''state'' of
        Inl ex \<Rightarrow> (Inl ex, w)
      | Inr state \<Rightarrow>
     (case dict_getitem (dict_objs w contact) ''zipcode'' of
        Inl ex \<Rightarrow> (Inl ex, w)
      | Inr zipcode \<Rightarrow>
     (case validate_address_smarty e w address city state zipcode
             (SMARTY_AUTH_ID (app_config e)) (SMARTY_AUTH_TOKEN (app_config e)) of
        (Inl ex, w1) \<Rightarrow> (Inl ex, w1)
      | (Inr validation_result, w1) \<Rightarrow>
     (case dict_getitem (dict_objs w1 contact) ''id'' of
        Inl ex \<Rightarrow> (Inl ex, w1)
      | Inr contact_id \<Rightarrow>
     (case update_validation_status e w1 contact_id validation_result of
        (Inl ex, w2) \<Rightarrow> (Inl ex, w2)
      | (Inr u, w2) \<Rightarrow>
          let w3 = dict_setitem w2 contact ''valid'' validation_result;
              w4 = list_append w3 validated_contacts contact
          in (case dict_getitem (dict_objs w4 contact) ''first_name'' of
                Inl ex \<Rightarrow> (Inl ex, w4)
              | Inr first_name \<Rightarrow>
             (case dict_getitem (dict_objs w4 contact) ''last_name'' of
                Inl ex \<Rightarrow> (Inl ex, w4)
              | Inr last_name \<Rightarrow> (Inr (), w4))))))))))"

fun validate_loop ::
  "('db, 'fs) env \<Rightarrow> ('db, 'fs) world \<Rightarrow> nat list \<Rightarrow> nat \<Rightarrow> (exn + unit) \<times> ('db, 'fs) world" where
  "validate_loop e w [] validated_contacts = (Inr (), w)"
| "validate_loop e w (contact # rest) validated_contacts =
     (case validate_contact e w contact validated_contacts of
        (Inl ex, w1) \<Rightarrow> (Inl ex, w1)
      | (Inr u, w1) \<Rightarrow> validate_loop e w1 rest validated_contacts)"

definition api_validate_addresses_handler ::
  "('db, 'fs) env \<Rightarrow> ('db, 'fs) world \<Rightarrow> (exn + http_response) \<times> ('db, 'fs) world" where
  "api_validate_addresses_handler e w =
     (case fetch_contacts e w of
        (Inl ex, w1) \<Rightarrow> (Inl ex, w1)
      | (Inr contacts, w1) \<Rightarrow>
          if list_objs w1 contacts = [] then
            (Inr (jsonify 404 [(''error'', PStr ''No contacts found'')]), w1)
          else
            let (validated_contacts, w2) = new_list w1 []
            in (case validate_loop e w2 (list_objs w2 contacts) validated_contacts of
                  (Inl ex, w3) \<Rightarrow> (Inl ex, w3)
                | (Inr u, w3) \<Rightarrow>
                    (Inr (jsonify 200
                       [(''message'', PStr ''Address validation completed''),
                        (''contacts'', snapshot w3 validated_contacts),
                        (''count'', PInt (int (length (list_objs w3 validated_contacts))))]),
                     w3)))"

definition api_validate_addresses ::
  "('db, 'fs) env \<Rightarrow> ('db, 'fs) world \<Rightarrow> http_response \<times> ('db, 'fs) world" where
  "api_validate_addresses e = handle_db_errors (api_validate_addresses_handler e)"

text \<open>\<^verbatim>\<open>data.get(key, default)\<close>, where \<open>data\<close> is whatever the request body decoded to.\<close>

fun py_get :: "pyval \<Rightarrow> string \<Rightarrow> pyval \<Rightarrow> exn + pyval" where
  "py_get (PDict d) k dflt = Inr (dict_get d k dflt)"
| "py_get v k dflt = Inl (AttributeError ''object has no attribute get'')"

text \<open>
  The f-string \<^verbatim>\<open>f'/download/{output_filename}'\<close>. It is evaluated only after
  \<^verbatim>\<open>os.path.join\<close> has accepted \<open>output_filename\<close>, that is on a string (see
  \<open>generate_html_file_filename\<close> below); the text of other values is left empty.
\<close>

fun download_url_of :: "pyval \<Rightarrow> string" where
  "download_url_of (PStr s) = ''/download/'' @ s"
| "download_url_of v = ''/download/''"

text \<open>
  The handler of \<^verbatim>\<open>POST /api/generate\<close>; \<open>request_json\<close> is the outcome of
  \<^verbatim>\<open>request.get_json()\<close>: \<^verbatim>\<open>None\<close> for an absent body, the decoded value, or an
  exception.
\<close>

definition api_generate_html_handler ::
  "('db, 'fs) env \<Rightarrow> exn + pyval \<Rightarrow> ('db, 'fs) world \<Rightarrow>
   (exn + http_response) \<times> ('db, 'fs) world" where
  "api_generate_html_handler e request_json w =
     (case request_json of
        Inl ex \<Rightarrow> (Inl ex, w)
      | Inr j \<Rightarrow>
          let data = (if truthy j then j else PDict [])
          in (case py_get data ''template_style'' (PStr (TEMPLATE_STYLE (app_config e))) of
                Inl ex \<Rightarrow> (Inl ex, w)
              | Inr template_style \<Rightarrow>
             (case py_get data ''output_filename'' (PStr ''index.html'') of
                Inl ex \<Rightarrow> (Inl ex, w)
              | Inr output_filename \<Rightarrow>
             (case fetch_contacts e w of
                (Inl ex, w1) \<Rightarrow> (Inl ex, w1)
              | (Inr contacts, w1) \<Rightarrow>
                  if list_objs w1 contacts = [] then
                    (Inr (jsonify 404 [(''error'', PStr ''No contacts found'')]), w1)
                  else
                    (case generate_html_file e w1 contacts template_style output_filename of
                       (Inl (FileNotFoundError m), w2) \<Rightarrow>
                         (Inr (jsonify 400 [(''error'', PStr m)]), w2)
                     | (Inl ex, w2) \<Rightarrow> (Inl ex, w2)
                     | (Inr (output_path, selected_style), w2) \<Rightarrow>
                         (Inr (jsonify 200
                            [(''message'', PStr ''HTML file generated successfully''),
                             (''output_path'', PStr output_path),
                             (''template_style'', selected_style),
                             (''contacts_count'', PInt (int (length (list_objs w2 contacts)))),
                             (''download_url'', PStr (download_url_of output_filename))]),
                          w2))))))"

definition api_generate_html ::
  "('db, 'fs) env \<Rightarrow> exn + pyval \<Rightarrow> ('db, 'fs) world \<Rightarrow> http_response \<times> ('db, 'fs) world" where
  "api_generate_html e request_json = handle_db_errors (api_generate_html_handler e request_json)"

text \<open>
  The handler of \<^verbatim>\<open>POST /api/generate\<close> from line 351 on, once \<open>template_style\<close> and
  \<open>output_filename\<close> have been read from the request (see \<open>handler_resolved\<close> below).
\<close>

definition api_generate_html_from ::
  "('db, 'fs) env \<Rightarrow> pyval \<Rightarrow> pyval \<Rightarrow> ('db, 'fs) world \<Rightarrow>
   (exn + http_response) \<times> ('db, 'fs) world" where
  "api_generate_html_from e template_style output_filename w =
     (case fetch_contacts e w of
        (Inl ex, w1) \<Rightarrow> (Inl ex, w1)
      | (Inr contacts, w1) \<Rightarrow>
          if list_objs w1 contacts = [] then
            (Inr (jsonify 404 [(''error'', PStr ''No contacts found'')]), w1)
          else
            (case generate_html_file e w1 contacts template_style output_filename of
               (Inl (FileNotFoundError m), w2) \<Rightarrow>
                 (Inr (jsonify 400 [(''error'', PStr m)]), w2)
             | (Inl ex, w2) \<Rightarrow> (Inl ex, w2)
             | (Inr (output_path, selected_style), w2) \<Rightarrow>
                 (Inr (jsonify 200
                    [(''message'', PStr ''HTML file generated successfully''),
                     (''output_path'', PStr output_path),
                     (''template_style'', selected_style),
                     (''contacts_count'', PInt (int (length (list_objs w2 contacts)))),
                     (''download_url'', PStr (download_url_of output_filename))]),
                  w2)))"


section \<open>A reference store, file system and environment\<close>

text \<open>
  Concrete instances of the ports, on which the endpoints can be run: a table whose rows
  hold the nine selected columns (the id first, the validation status last) and which
  refuses the updates of some ids, and a disk that maps a path to a file's text.
\<close>

record table =
  table_rows :: "pyval list list"
  table_refused :: "pyval list"
  table_down :: bool

definition table_select :: "table \<Rightarrow> exn + pyval list list" where
  "table_select t =
     (if table_down t then Inl (Psycopg2Error ''connection refused'') else Inr (table_rows t))"

definition set_valid :: "pyval \<Rightarrow> pyval \<Rightarrow> pyval list \<Rightarrow> pyval list" where
  "set_valid cid v row = (if row \<noteq> [] \<and> hd row = cid then row[8 := v] else row)"

definition table_update :: "table \<Rightarrow> pyval \<Rightarrow> pyval \<Rightarrow> exn + table" where
  "table_update t cid v =
     (if cid \<in> set (table_refused t) then Inl (Psycopg2Error ''update refused'')
      else Inr (t\<lparr>table_rows := map (set_valid cid v) (table_rows t)\<rparr>))"

type_synonym disk = "(string \<times> string) list"

definition disk_makedirs :: "disk \<Rightarrow> string \<Rightarrow> exn + disk" where
  "disk_makedirs f d = Inr f"

definition disk_exists :: "disk \<Rightarrow> string \<Rightarrow> bool" where
  "disk_exists f p = (map_of f p \<noteq> None)"

definition disk_read :: "disk \<Rightarrow> string \<Rightarrow> exn + string" where
  "disk_read f p = (case map_of f p of None \<Rightarrow> Inl (FileNotFoundError p) | Some c \<Rightarrow> Inr c)"

definition disk_write :: "disk \<Rightarrow> string \<Rightarrow> string \<Rightarrow> exn + disk" where
  "disk_write f p c = Inr (AList.update p c f)"

definition sample_config :: config where
  "sample_config =
     \<lparr>SMARTY_AUTH_ID = Some ''id'', SMARTY_AUTH_TOKEN = Some ''token'',
      TEMPLATE_STYLE = ''random'', TEMPLATES_DIR = ''templates'',
      OUTPUT_DIR = ''static/generated''\<rparr>"

text \<open>
  The sample service answers every request with the given response; the sample engine
  returns the template's text followed by the timestamp it was given.
\<close>

definition sample_env :: "exn + response \<Rightarrow> (table, disk) env" where
  "sample_env answer =
     \<lparr>app_config = sample_config,
      requests_get = (\<lambda>n r. answer),
      db_select = table_select,
      db_update = table_update,
      os_makedirs = disk_makedirs,
      os_path_exists = disk_exists,
      read_text = disk_read,
      write_text = disk_write,
      random_index = 6,
      now = ''2024-05-01 12:00:00'',
      jinja_render = (\<lambda>t d. Inr (t @ (case map_of d ''timestamp'' of
                                         Some (PStr s) \<Rightarrow> s | _ \<Rightarrow> [])))\<rparr>"

definition ok_response :: "pyval \<Rightarrow> exn + response" where
  "ok_response data = Inr \<lparr>status_code = 200, json = Inr data\<rparr>"

definition initial_world :: "'db \<Rightarrow> 'fs \<Rightarrow> ('db, 'fs) world" where
  "initial_world d f =
     \<lparr>dict_objs = (\<lambda>r. []), list_objs = (\<lambda>r. []), next_dict = 0, next_list = 0,
      store = d, filesys = f, sent = []\<rparr>"

definition sample_rows :: "pyval list list" where
  "sample_rows =
     [[PInt 1, PStr ''Ada'', PStr ''Byron'', PStr ''1 Main St'', PStr ''Springfield'',
       PStr ''VA'', PStr ''22902'', PStr ''US'', PNone],
      [PInt 2, PStr ''Alan'', PStr ''Turing'', PStr ''2 Oak Ave'', PStr ''Richmond'',
       PStr ''VA'', PStr ''23219'', PStr ''US'', PStr ''valid''],
      [PInt 3, PStr ''Grace'', PStr ''Wirth'', PStr ''3 Elm Rd'', PStr ''Norfolk'',
       PStr ''VA'', PStr ''23510'', PStr ''US'', PBool False]]"

definition sample_table :: table where
  "sample_table = \<lparr>table_rows = sample_rows, table_refused = [], table_down = False\<rparr>"

definition sample_disk :: disk where
  "sample_disk =
     [(''templates/modern_template.html'', ''<modern>''),
      (''templates/neon_template.html'', ''<neon>'')]"

definition sample_world :: "(table, disk) world" where
  "sample_world = initial_world sample_table sample_disk"

text \<open>A heap with five contact dictionaries, four of them in the list behind reference 0.\<close>

definition heap_world :: "(table, disk) world" where
  "heap_world =
     sample_world
       \<lparr>dict_objs :=
          (\<lambda>r. if r = 0 then [(''id'', PInt 1), (''valid'', PStr ''valid'')]
               else if r = 1 then [(''id'', PInt 2), (''valid'', PStr ''invalid'')]
               else if r = 2 then [(''id'', PInt 3), (''valid'', PBool False)]
               else if r = 3 then [(''id'', PInt 4)]
               else [(''id'', PInt 5), (''valid'', PStr ''valid'')]),
        list_objs := (\<lambda>l. if l = 0 then [0, 1, 2, 3] else []),
        next_dict := 5, next_list := 1\<rparr>"

text \<open>The sample world with a table that holds no contact.\<close>

definition empty_table_world :: "(table, disk) world" where
  "empty_table_world = initial_world (sample_table\<lparr>table_rows := []\<rparr>) sample_disk"

text \<open>
  A service whose second request (number 1) times out, and a table that refuses the update
  of contact 2.
\<close>

definition flaky_env :: "(table, disk) env" where
  "flaky_env =
     (sample_env (ok_response (PList [])))
       \<lparr>requests_get := (\<lambda>n r. if n = 1 then Inl (RequestException ''timed out'')
                                else ok_response (PList []))\<rparr>"

definition refusing_world :: "(table, disk) world" where
  "refusing_world = initial_world (sample_table\<lparr>table_refused := [PInt 2]\<rparr>) sample_disk"

section \<open>Properties of the address validator\<close>

text \<open>
  C1, as far as it holds. With both credentials present: a response with status 200 whose
  body decodes to a non-empty JSON array gives that array; status 200 and the empty array
  give the boolean false; any other status gives the string "API Error"; a request that
  raises a \<^verbatim>\<open>RequestException\<close> gives the string "Validation Failed". In each of the
  four cases the function returns (the result is \<open>Inr\<close>, not an exception), and exactly one
  request is issued.
\<close>

theorem validate_address_smarty_four_cases:
  assumes "str_truthy auth_id" and "str_truthy auth_token"
  shows "(\<forall>resp x xs.
            requests_get e (length (sent w))
              (smarty_request address city state zipcode auth_id auth_token) = Inr resp
            \<and> status_code resp = 200 \<and> json resp = Inr (PList (x # xs))
          \<longrightarrow> fst (validate_address_smarty e w address city state zipcode auth_id auth_token)
                = Inr (PList (x # xs)))
       \<and> (\<forall>resp.
            requests_get e (length (sent w))
              (smarty_request address city state zipcode auth_id auth_token) = Inr resp
            \<and> status_code resp = 200 \<and> json resp = Inr (PList [])
          \<longrightarrow> fst (validate_address_smarty e w address city state zipcode auth_id auth_token)
                = Inr (PBool False))
       \<and> (\<forall>resp.
            requests_get e (length (sent w))
              (smarty_request address city state zipcode auth_id auth_token) = Inr resp
            \<and> status_code resp \<noteq> 200
          \<longrightarrow> fst (validate_address_smarty e w address city state zipcode auth_id auth_token)
                = Inr (PStr ''API Error''))
       \<and> (\<forall>m.
            requests_get e (length (sent w))
              (smarty_request address city state zipcode auth_id auth_token)
              = Inl (RequestException m)
          \<longrightarrow> fst (validate_address_smarty e w address city state zipcode auth_id auth_token)
                = Inr (PStr ''Validation Failed''))
       \<and> sent (snd (validate_address_smarty e w address city state zipcode auth_id auth_token))
           = sent w @ [smarty_request address city state zipcode auth_id auth_token]"
  using assms
  by (auto simp: validate_address_smarty_def smarty_except_def Let_def
           split: sum.splits)

theorem validate_address_smarty_four_cases_witness:
  "fst (validate_address_smarty (sample_env (ok_response (PList [PDict [(''input_index'', PInt 0)]])))
          sample_world (PStr ''1 Main St'') (PStr ''Springfield'') (PStr ''VA'') (PStr ''22902'')
          (Some ''id'') (Some ''token''))
     = Inr (PList [PDict [(''input_index'', PInt 0)]])
   \<and> fst (validate_address_smarty (sample_env (ok_response (PList [])))
          sample_world (PStr ''1 Main St'') (PStr ''Springfield'') (PStr ''VA'') (PStr ''22902'')
          (Some ''id'') (Some ''token''))
     = Inr (PBool False)
   \<and> fst (validate_address_smarty (sample_env (Inr \<lparr>status_code = 401, json = Inr PNone\<rparr>))
          sample_world (PStr ''1 Main St'') (PStr ''Springfield'') (PStr ''VA'') (PStr ''22902'')
          (Some ''id'') (Some ''token''))
     = Inr (PStr ''API Error'')
   \<and> fst (validate_address_smarty (sample_env (Inl (RequestException ''timed out'')))
          sample_world (PStr ''1 Main St'') (PStr ''Springfield'') (PStr ''VA'') (PStr ''22902'')
          (Some ''id'') (Some ''token''))
     = Inr (PStr ''Validation Failed'')"
  using
    validate_address_smarty_four_cases [where auth_id = "Some ''id''" and auth_token = "Some ''token''"
      and e = "sample_env (ok_response (PList [PDict [(''input_index'', PInt 0)]]))"
      and w = sample_world and address = "PStr ''1 Main St''" and city = "PStr ''Springfield''"
      and state = "PStr ''VA''" and zipcode = "PStr ''22902''"]
    validate_address_smarty_four_cases [where auth_id = "Some ''id''" and auth_token = "Some ''token''"
      and e = "sample_env (ok_response (PList []))"
      and w = sample_world and address = "PStr ''1 Main St''" and city = "PStr ''Springfield''"
      and state = "PStr ''VA''" and zipcode = "PStr ''22902''"]
    validate_address_smarty_four_cases [where auth_id = "Some ''id''" and auth_token = "Some ''token''"
      and e = "sample_env (Inr \<lparr>status_code = 401, json = Inr PNone\<rparr>)"
      and w = sample_world and address = "PStr ''1 Main St''" and city = "PStr ''Springfield''"
      and state = "PStr ''VA''" and zipcode = "PStr ''22902''"]
    validate_address_smarty_four_cases [where auth_id = "Some ''id''" and auth_token = "Some ''token''"
      and e = "sample_env (Inl (RequestException ''timed out''))"
      and w = sample_world and address = "PStr ''1 Main St''" and city = "PStr ''Springfield''"
      and state = "PStr ''VA''" and zipcode = "PStr ''22902''"]
  by (simp add: sample_env_def ok_response_def)

text \<open>
  The four cases are not exhaustive: with both credentials present, a response with
  status 200 whose body is the JSON number 5 makes \<^verbatim>\<open>len(data)\<close> raise a
  \<^verbatim>\<open>TypeError\<close>, which the \<^verbatim>\<open>except\<close> clause does not catch.
\<close>

theorem validate_address_smarty_raises:
  "fst (validate_address_smarty (sample_env (ok_response (PInt 5)))
          sample_world (PStr ''1 Main St'') (PStr ''Springfield'') (PStr ''VA'') (PStr ''22902'')
          (Some ''id'') (Some ''token''))
     = Inl (TypeError ''object has no len()'')"
  by (simp add: validate_address_smarty_def smarty_except_def sample_env_def ok_response_def)

text \<open>
  C2. When the auth id or the auth token is absent (\<^verbatim>\<open>None\<close>, or the empty string, which
  \<^verbatim>\<open>not\<close> treats alike), the result is exactly the string "Not Validated", whatever the
  network port would answer, and the world is unchanged: in particular the log of issued
  HTTP requests is the same, so no request is made.
\<close>

theorem validate_address_smarty_no_credentials:
  assumes "\<not> str_truthy auth_id \<or> \<not> str_truthy auth_token"
  shows "validate_address_smarty e w address city state zipcode auth_id auth_token
           = (Inr (PStr ''Not Validated''), w)
         \<and> sent (snd (validate_address_smarty e w address city state zipcode
                        auth_id auth_token)) = sent w"
  using assms by (auto simp: validate_address_smarty_def)

theorem validate_address_smarty_no_credentials_witness:
  "validate_address_smarty (sample_env (ok_response (PList [PInt 1])))
      sample_world (PStr ''1 Main St'') (PStr ''Springfield'') (PStr ''VA'') (PStr ''22902'')
      None (Some ''token'')
     = (Inr (PStr ''Not Validated''), sample_world)
   \<and> validate_address_smarty (sample_env (ok_response (PList [PInt 1])))
      sample_world (PStr ''1 Main St'') (PStr ''Springfield'') (PStr ''VA'') (PStr ''22902'')
      (Some ''id'') (Some [])
     = (Inr (PStr ''Not Validated''), sample_world)"
  using
    validate_address_smarty_no_credentials [where auth_id = None and auth_token = "Some ''token''"
      and e = "sample_env (ok_response (PList [PInt 1]))"
      and w = sample_world and address = "PStr ''1 Main St''" and city = "PStr ''Springfield''"
      and state = "PStr ''VA''" and zipcode = "PStr ''22902''"]
    validate_address_smarty_no_credentials [where auth_id = "Some ''id''" and auth_token = "Some []"
      and e = "sample_env (ok_response (PList [PInt 1]))"
      and w = sample_world and address = "PStr ''1 Main St''" and city = "PStr ''Springfield''"
      and state = "PStr ''VA''" and zipcode = "PStr ''22902''"]
  by simp

section \<open>Properties of the contact preparation\<close>

lemma annotate_valid: "dict_get (annotate d) ''valid'' dflt = dict_get d ''valid'' dflt"
  by (simp add: annotate_def dict_get_def update_conv' split: prod.splits)

lemma annotate_idem: "annotate (annotate d) = annotate d"
proof -
  obtain a b c where abc: "get_validation_attributes (dict_get d ''valid'' (PStr [])) = (a, b, c)"
    by (cases "get_validation_attributes (dict_get d ''valid'' (PStr []))") auto
  have m: "map_of (annotate d) ''css_class'' = Some (PStr a)"
     "map_of (annotate d) ''badge_class'' = Some (PStr b)"
     "map_of (annotate d) ''validation_text'' = Some (PStr c)"
    using abc by (simp_all add: annotate_def update_conv')
  have "annotate (annotate d) =
      AList.update ''validation_text'' (PStr c)
            (AList.update ''badge_class'' (PStr b)
               (AList.update ''css_class'' (PStr a) (annotate d)))"
    using abc by (simp add: annotate_def[of "annotate d"] annotate_valid)
  also have "\<dots> = annotate d"
    using m by (simp add: update_triv update_conv')
  finally show ?thesis .
qed

lemma loop_step:
  "prepare_contacts_loop w (c # cs) =
     prepare_contacts_loop (w\<lparr>dict_objs := (dict_objs w)(c := annotate (dict_objs w c))\<rparr>) cs"
  by (simp add: annotate_def dict_setitem_def Let_def split: prod.splits)

lemma loop_dicts:
  "dict_objs (prepare_contacts_loop w cs) =
     (\<lambda>c. if c \<in> set cs then annotate (dict_objs w c) else dict_objs w c)"
proof (induction cs arbitrary: w)
  case Nil
  then show ?case by simp
next
  case (Cons c cs)
  show ?case
    unfolding loop_step Cons.IH
    by (auto simp: fun_eq_iff annotate_idem)
qed

lemma loop_frame:
  "list_objs (prepare_contacts_loop w cs) = list_objs w"
  "next_dict (prepare_contacts_loop w cs) = next_dict w"
  "next_list (prepare_contacts_loop w cs) = next_list w"
  "store (prepare_contacts_loop w cs) = store w"
  "filesys (prepare_contacts_loop w cs) = filesys w"
  "sent (prepare_contacts_loop w cs) = sent w"
  by (induction cs arbitrary: w; simp add: dict_setitem_def Let_def split: prod.splits)+


lemma annotate_map_of:
  "map_of (annotate d) k =
     (if k = ''validation_text'' then
        Some (PStr (snd (snd (get_validation_attributes (dict_get d ''valid'' (PStr []))))))
      else if k = ''badge_class'' then
        Some (PStr (fst (snd (get_validation_attributes (dict_get d ''valid'' (PStr []))))))
      else if k = ''css_class'' then
        Some (PStr (fst (get_validation_attributes (dict_get d ''valid'' (PStr [])))))
      else map_of d k)"
  by (simp add: annotate_def update_conv' split: prod.splits)

text \<open>
  C5. After \<^verbatim>\<open>prepare_contact_data\<close>, every contact of the list carries the three display
  attributes given by the three-way mapping on its validation status
  (\<^verbatim>\<open>contact.get('valid', '')\<close>): the string "valid" gives valid, valid-badge and "Valid
  Address"; the string "invalid" gives invalid, invalid-badge and "Invalid Address"; every
  other value, among them the boolean false and an absent status, gives not-validated,
  not-validated-badge and "Not Validated".
\<close>

theorem contact_display_attributes:
  assumes "c \<in> set (list_objs w contacts)"
  shows "let status = dict_get (dict_objs w c) ''valid'' (PStr []);
             d = dict_objs (snd (prepare_contact_data w contacts)) c;
             shown = (map_of d ''css_class'', map_of d ''badge_class'', map_of d ''validation_text'')
         in (status = PStr ''valid'' \<longrightarrow>
               shown = (Some (PStr ''valid''), Some (PStr ''valid-badge''),
                        Some (PStr ''Valid Address'')))
          \<and> (status = PStr ''invalid'' \<longrightarrow>
               shown = (Some (PStr ''invalid''), Some (PStr ''invalid-badge''),
                        Some (PStr ''Invalid Address'')))
          \<and> (status \<noteq> PStr ''valid'' \<and> status \<noteq> PStr ''invalid'' \<longrightarrow>
               shown = (Some (PStr ''not-validated''), Some (PStr ''not-validated-badge''),
                        Some (PStr ''Not Validated'')))
          \<and> (map_of (dict_objs w c) ''valid'' = None \<or> status = PBool False \<longrightarrow>
               shown = (Some (PStr ''not-validated''), Some (PStr ''not-validated-badge''),
                        Some (PStr ''Not Validated'')))"
  using assms
  by (auto simp: prepare_contact_data_def loop_dicts annotate_map_of
        get_validation_attributes_def dict_get_def Let_def)

theorem contact_display_attributes_witness:
  "map_of (dict_objs (snd (prepare_contact_data heap_world 0)) 0) ''badge_class''
     = Some (PStr ''valid-badge'')
   \<and> map_of (dict_objs (snd (prepare_contact_data heap_world 0)) 1) ''validation_text''
     = Some (PStr ''Invalid Address'')
   \<and> map_of (dict_objs (snd (prepare_contact_data heap_world 0)) 2) ''badge_class''
     = Some (PStr ''not-validated-badge'')
   \<and> map_of (dict_objs (snd (prepare_contact_data heap_world 0)) 3) ''validation_text''
     = Some (PStr ''Not Validated'')"
  using contact_display_attributes [of 0 heap_world 0]
    contact_display_attributes [of 1 heap_world 0]
    contact_display_attributes [of 2 heap_world 0]
    contact_display_attributes [of 3 heap_world 0]
  by (simp add: heap_world_def dict_get_def Let_def)

lemma heap_world_simps:
  "list_objs heap_world 0 = [0, 1, 2, 3]"
  "dict_objs heap_world 0 = [(''id'', PInt 1), (''valid'', PStr ''valid'')]"
  "dict_objs heap_world 1 = [(''id'', PInt 2), (''valid'', PStr ''invalid'')]"
  "dict_objs heap_world 2 = [(''id'', PInt 3), (''valid'', PBool False)]"
  "dict_objs heap_world 3 = [(''id'', PInt 4)]"
  "dict_objs heap_world 4 = [(''id'', PInt 5), (''valid'', PStr ''valid'')]"
  by (simp_all add: heap_world_def)

text \<open>
  C9. \<^verbatim>\<open>prepare_contact_data\<close> returns the reference it was given, and works in place:
  the list objects are unchanged (so the number of contacts and their order are), the
  dictionaries of contacts outside the list are unchanged, in every dictionary every key
  other than css_class, badge_class and validation_text keeps its value, and each contact
  of the list has exactly its old keys and these three. Nothing else of the world changes,
  and \<^verbatim>\<open>prepare_template_data\<close> passes the same reference on.
\<close>

theorem prepare_contact_data_in_place:
  "fst (prepare_contact_data w contacts) = contacts
   \<and> list_objs (snd (prepare_contact_data w contacts)) = list_objs w
   \<and> (\<forall>c. c \<notin> set (list_objs w contacts) \<longrightarrow>
          dict_objs (snd (prepare_contact_data w contacts)) c = dict_objs w c)
   \<and> (\<forall>c k. k \<notin> {''css_class'', ''badge_class'', ''validation_text''} \<longrightarrow>
          map_of (dict_objs (snd (prepare_contact_data w contacts)) c) k
            = map_of (dict_objs w c) k)
   \<and> (\<forall>c \<in> set (list_objs w contacts).
          dom (map_of (dict_objs (snd (prepare_contact_data w contacts)) c))
            = dom (map_of (dict_objs w c))
              \<union> {''css_class'', ''badge_class'', ''validation_text''})
   \<and> next_dict (snd (prepare_contact_data w contacts)) = next_dict w
   \<and> next_list (snd (prepare_contact_data w contacts)) = next_list w
   \<and> store (snd (prepare_contact_data w contacts)) = store w
   \<and> filesys (snd (prepare_contact_data w contacts)) = filesys w
   \<and> sent (snd (prepare_contact_data w contacts)) = sent w
   \<and> td_contacts (fst (prepare_template_data e w contacts)) = contacts
   \<and> snd (prepare_template_data e w contacts) = snd (prepare_contact_data w contacts)"
  by (auto simp: prepare_contact_data_def prepare_template_data_def loop_dicts loop_frame
        annotate_map_of dom_def split: if_splits)

theorem prepare_contact_data_in_place_witness:
  "fst (prepare_contact_data heap_world 0) = 0
   \<and> list_objs (snd (prepare_contact_data heap_world 0)) 0 = [0, 1, 2, 3]
   \<and> dict_objs (snd (prepare_contact_data heap_world 0)) 4
       = [(''id'', PInt 5), (''valid'', PStr ''valid'')]
   \<and> map_of (dict_objs (snd (prepare_contact_data heap_world 0)) 2) ''valid''
       = Some (PBool False)
   \<and> dom (map_of (dict_objs (snd (prepare_contact_data heap_world 0)) 3))
       = {''id'', ''css_class'', ''badge_class'', ''validation_text''}"
  using prepare_contact_data_in_place [of heap_world 0 "sample_env (ok_response PNone)"]
  by (simp add: heap_world_simps insert_commute)

section \<open>Properties of style selection and rendering\<close>

lemma template_keys: "map fst get_template_files = [''modern'', ''dark'', ''neon'', ''retro'']"
  by (simp add: get_template_files_def)

lemma random_choice_in: "xs \<noteq> [] \<Longrightarrow> random_choice e xs \<in> set xs"
  by (simp add: random_choice_def)

lemma select_random:
  "select_template_style e (PStr ''random'')
     = PStr ([''modern'', ''dark'', ''neon'', ''retro''] ! (random_index e mod 4))"
  by (simp add: select_template_style_def random_choice_def get_template_files_def)

lemma generate_html_file_style:
  "generate_html_file e w contacts template_style output_filename = (Inr (p, s), w')
   \<Longrightarrow> s = select_template_style e template_style"
  by (auto simp: generate_html_file_def Let_def split: sum.splits prod.splits)


lemma template_filename_unrecognized:
  "s \<notin> {''modern'', ''dark'', ''neon'', ''retro''}
   \<Longrightarrow> template_filename_of (PStr s) = ''modern_template.html''"
  by (simp add: template_filename_of_def get_template_files_def)

lemma template_filename_modern:
  "template_filename_of (PStr ''modern'') = ''modern_template.html''"
  by (simp add: template_filename_of_def get_template_files_def)

lemma load_template_unrecognized:
  "s \<notin> {''modern'', ''dark'', ''neon'', ''retro''}
   \<Longrightarrow> load_template e w (PStr s) dir = load_template e w (PStr ''modern'') dir"
  by (simp add: load_template_def template_filename_unrecognized template_filename_modern)

lemma select_not_random:
  "s \<noteq> ''random'' \<Longrightarrow> select_template_style e (PStr s) = PStr s"
  by (simp add: select_template_style_def)

lemma select_modern: "select_template_style e (PStr ''modern'') = PStr ''modern''"
  by (simp add: select_template_style_def)


lemma sample_generate:
  assumes "load_template (sample_env a) w (select_template_style (sample_env a) style)
             ''templates'' = Inr t"
  shows "generate_html_file (sample_env a) w contacts style (PStr f)
     = (Inr (path_join ''static/generated'' f, select_template_style (sample_env a) style),
        (snd (prepare_contact_data w contacts))
          \<lparr>filesys := AList.update (path_join ''static/generated'' f)
                        (t @ ''2024-05-01 12:00:00'') (filesys w)\<rparr>)"
proof -
  have cfg: "app_config (sample_env a) = sample_config"
      "os_makedirs (sample_env a) = disk_makedirs" "write_text (sample_env a) = disk_write"
      "now (sample_env a) = ''2024-05-01 12:00:00''"
      "jinja_render (sample_env a) = (\<lambda>t d. Inr (t @ (case map_of d ''timestamp'' of
                                         Some (PStr s) \<Rightarrow> s | _ \<Rightarrow> [])))"
    by (simp_all add: sample_env_def)
  have w: "w\<lparr>filesys := filesys w\<rparr> = w" by simp
  show ?thesis
    using assms
    by (simp add: generate_html_file_def cfg sample_config_def disk_makedirs_def w
          prepare_template_data_def render_custom_template_def disk_write_def
          prepare_contact_data_def loop_frame)
qed

lemma sample_load:
  assumes "filesys w = sample_disk"
  shows "load_template (sample_env a) w (PStr ''neon'') ''templates'' = Inr ''<neon>''"
    and "load_template (sample_env a) w (PStr ''modern'') ''templates'' = Inr ''<modern>''"
  using assms
  by (simp_all add: load_template_def template_filename_of_def get_template_files_def
        path_join_def sample_env_def disk_exists_def disk_read_def sample_disk_def)

lemma heap_world_disk: "filesys heap_world = sample_disk"
  by (simp add: heap_world_def sample_world_def initial_world_def)

lemma sample_path: "path_join ''static/generated'' ''index.html'' = ''static/generated/index.html''"
  by (simp add: path_join_def)

lemma sample_random: "select_template_style (sample_env a) (PStr ''random'') = PStr ''neon''"
  by (simp add: select_random sample_env_def)

text \<open>
  C6. The requested style "random" is resolved to one of modern, dark, neon and retro,
  whatever the draw, and never to the string "random" itself; whenever
  \<^verbatim>\<open>generate_html_file\<close> returns for the requested style "random", the style it returns
  is one of these four.
\<close>

theorem random_style_is_concrete:
  "select_template_style e (PStr ''random'')
     \<in> {PStr ''modern'', PStr ''dark'', PStr ''neon'', PStr ''retro''}
   \<and> select_template_style e (PStr ''random'') \<noteq> PStr ''random''
   \<and> (\<forall>p s w'. generate_html_file e w contacts (PStr ''random'') output_filename
                   = (Inr (p, s), w')
        \<longrightarrow> s \<in> {PStr ''modern'', PStr ''dark'', PStr ''neon'', PStr ''retro''}
            \<and> s \<noteq> PStr ''random'')"
proof -
  have "random_index e mod 4 < 4" by simp
  then have "random_index e mod 4 \<in> {0, 1, 2, 3}" by auto
  then have in4: "select_template_style e (PStr ''random'')
     \<in> {PStr ''modern'', PStr ''dark'', PStr ''neon'', PStr ''retro''}"
    unfolding select_random by auto
  then have ne: "select_template_style e (PStr ''random'') \<noteq> PStr ''random''"
    by auto
  show ?thesis
    using in4 ne by (auto dest!: generate_html_file_style)
qed


theorem random_style_is_concrete_witness:
  "select_template_style (sample_env (ok_response PNone)) (PStr ''random'') = PStr ''neon''
   \<and> fst (generate_html_file (sample_env (ok_response PNone)) heap_world 0
             (PStr ''random'') (PStr ''index.html''))
       = Inr (''static/generated/index.html'', PStr ''neon'')"
  using random_style_is_concrete [of "sample_env (ok_response PNone)" heap_world 0
          "PStr ''index.html''"]
    sample_generate [where a = "ok_response PNone" and w = heap_world and contacts = 0
      and style = "PStr ''random''" and t = "''<neon>''" and f = "''index.html''"]
  by (simp add: sample_random sample_load heap_world_disk sample_path)

text \<open>
  C7. For a style name that is none of modern, dark, neon, retro and random, the template
  loaded is the one loaded for "modern", and \<^verbatim>\<open>generate_html_file\<close> does exactly what
  it does for "modern", the reported style apart: it raises the same exception in the
  same world (so the name itself is never a reason to fail), or it returns the same path
  in the same world, in which the file written holds the same HTML text.
\<close>

theorem unrecognized_style_renders_modern:
  assumes "s \<notin> {''modern'', ''dark'', ''neon'', ''retro''}" and "s \<noteq> ''random''"
  shows "load_template e w (select_template_style e (PStr s)) dir
           = load_template e w (select_template_style e (PStr ''modern'')) dir
       \<and> generate_html_file e w contacts (PStr s) output_filename
           = (case generate_html_file e w contacts (PStr ''modern'') output_filename of
                (Inl ex, w') \<Rightarrow> (Inl ex, w')
              | (Inr (p, st), w') \<Rightarrow> (Inr (p, PStr s), w'))"
proof -
  have sel: "select_template_style e (PStr s) = PStr s"
    using assms by (simp add: select_not_random)
  have ld: "\<And>w. load_template e w (PStr s) (TEMPLATES_DIR (app_config e))
             = load_template e w (PStr ''modern'') (TEMPLATES_DIR (app_config e))"
    using assms by (simp add: load_template_unrecognized)
  have "generate_html_file e w contacts (PStr s) output_filename
           = (case generate_html_file e w contacts (PStr ''modern'') output_filename of
                (Inl ex, w') \<Rightarrow> (Inl ex, w')
              | (Inr (p, st), w') \<Rightarrow> (Inr (p, PStr s), w'))"
    unfolding generate_html_file_def Let_def sel select_modern ld
    by (simp split: sum.split prod.split)
  then show ?thesis
    using assms by (simp add: sel select_modern load_template_unrecognized)
qed


theorem unrecognized_style_renders_modern_witness:
  "fst (generate_html_file (sample_env (ok_response PNone)) heap_world 0
             (PStr ''bogus-style'') (PStr ''index.html''))
       = Inr (''static/generated/index.html'', PStr ''bogus-style'')
   \<and> snd (generate_html_file (sample_env (ok_response PNone)) heap_world 0
             (PStr ''bogus-style'') (PStr ''index.html''))
       = snd (generate_html_file (sample_env (ok_response PNone)) heap_world 0
             (PStr ''modern'') (PStr ''index.html''))
   \<and> map_of (filesys (snd (generate_html_file (sample_env (ok_response PNone)) heap_world 0
             (PStr ''bogus-style'') (PStr ''index.html'')))) ''static/generated/index.html''
       = Some ''<modern>2024-05-01 12:00:00''"
  using unrecognized_style_renders_modern [of "''bogus-style''"
          "sample_env (ok_response PNone)" heap_world "''templates''" 0 "PStr ''index.html''"]
    sample_generate [where a = "ok_response PNone" and w = heap_world and contacts = 0
      and style = "PStr ''modern''" and t = "''<modern>''" and f = "''index.html''"]
  by (simp add: select_modern sample_load heap_world_disk sample_path update_conv')

section \<open>Properties of the generate endpoint\<close>

lemma fetch_rows_frame:
  "store (fetch_rows w rows l) = store w"
  "filesys (fetch_rows w rows l) = filesys w"
  "sent (fetch_rows w rows l) = sent w"
  "next_list (fetch_rows w rows l) = next_list w"
  "next_dict (fetch_rows w rows l) = next_dict w + length rows"
  by (induction rows arbitrary: w; simp add: new_dict_def list_append_def)+

lemma upt_head: "[n ..< Suc (n + k)] = n # [Suc n ..< Suc (n + k)]"
  by (simp add: upt_conv_Cons del: upt_Suc)

lemma fetch_rows_list:
  "list_objs (fetch_rows w rows l) =
     (list_objs w)(l := list_objs w l @ [next_dict w ..< next_dict w + length rows])"
proof (induction rows arbitrary: w)
  case Nil
  then show ?case by simp
next
  case (Cons row rows)
  show ?case
    by (simp add: Cons.IH new_dict_def list_append_def fun_eq_iff upt_head del: upt_Suc)
qed

lemma fetch_rows_old_dicts:
  "a < next_dict w \<Longrightarrow> dict_objs (fetch_rows w rows l) a = dict_objs w a"
  by (induction rows arbitrary: w) (simp_all add: new_dict_def list_append_def)

lemma fetch_rows_new_dicts:
  "i < length rows \<Longrightarrow>
   dict_objs (fetch_rows w rows l) (next_dict w + i) = py_dict (zip columns (rows ! i))"
proof (induction rows arbitrary: w i)
  case Nil
  then show ?case by simp
next
  case (Cons row rows)
  show ?case
  proof (cases i)
    case 0
    then show ?thesis
      by (simp add: fetch_rows_old_dicts new_dict_def list_append_def)
  next
    case (Suc k)
    then have "k < length rows" using Cons.prems by simp
    from Cons.IH [OF this, of "list_append (snd (new_dict w (py_dict (zip columns row)))) l
                                (fst (new_dict w (py_dict (zip columns row))))"]
    show ?thesis
      using Suc by (simp add: new_dict_def list_append_def)
  qed
qed


lemma fetch_contacts_rows:
  assumes "db_select e (store w) = Inr rows"
  shows "fst (fetch_contacts e w) = Inr (next_list w)"
    and "list_objs (snd (fetch_contacts e w)) (next_list w)
           = [next_dict w ..< next_dict w + length rows]"
    and "store (snd (fetch_contacts e w)) = store w"
    and "filesys (snd (fetch_contacts e w)) = filesys w"
    and "sent (snd (fetch_contacts e w)) = sent w"
    and "next_list (snd (fetch_contacts e w)) = Suc (next_list w)"
    and "next_dict (snd (fetch_contacts e w)) = next_dict w + length rows"
  using assms
  by (simp_all add: fetch_contacts_def new_list_def fetch_rows_frame fetch_rows_list)

lemma fetch_contacts_empty:
  assumes "db_select e (store w) = Inr rows"
  shows "(list_objs (snd (fetch_contacts e w)) (next_list w) = []) = (rows = [])"
  using assms by (auto simp: fetch_contacts_rows)


lemma handler_resolved:
  "api_generate_html_handler e (Inr j) w =
     (case py_get (if truthy j then j else PDict []) ''template_style''
             (PStr (TEMPLATE_STYLE (app_config e))) of
        Inl ex \<Rightarrow> (Inl ex, w)
      | Inr template_style \<Rightarrow>
          (case py_get (if truthy j then j else PDict []) ''output_filename''
                  (PStr ''index.html'') of
             Inl ex \<Rightarrow> (Inl ex, w)
           | Inr output_filename \<Rightarrow>
               api_generate_html_from e template_style output_filename w))"
  unfolding api_generate_html_handler_def api_generate_html_from_def Let_def
  by (simp split: sum.split)

lemma handler_dict:
  "api_generate_html_handler e (Inr (PDict d)) w =
     api_generate_html_from e
       (dict_get d ''template_style'' (PStr (TEMPLATE_STYLE (app_config e))))
       (dict_get d ''output_filename'' (PStr ''index.html'')) w"
  by (cases d) (simp_all add: handler_resolved dict_get_def)

lemma handler_falsy:
  "\<not> truthy j \<Longrightarrow>
   api_generate_html_handler e (Inr j) w =
     api_generate_html_from e (PStr (TEMPLATE_STYLE (app_config e))) (PStr ''index.html'') w"
  by (simp add: handler_resolved dict_get_def)



lemma from_no_contacts:
  assumes "db_select e (store w) = Inr []"
  shows "api_generate_html_from e ts fn w =
     (Inr (jsonify 404 [(''error'', PStr ''No contacts found'')]), snd (fetch_contacts e w))"
proof -
  obtain r w1 where f: "fetch_contacts e w = (r, w1)" by (cases "fetch_contacts e w")
  have "r = Inr (next_list w)" "list_objs w1 (next_list w) = []"
    using fetch_contacts_rows(1,2) [OF assms] f by simp_all
  then show ?thesis
    by (simp add: api_generate_html_from_def f)
qed

lemma from_contacts:
  assumes "db_select e (store w) = Inr rows" and "rows \<noteq> []"
  shows "api_generate_html_from e ts fn w =
     (case generate_html_file e (snd (fetch_contacts e w)) (next_list w) ts fn of
        (Inl (FileNotFoundError m), w2) \<Rightarrow> (Inr (jsonify 400 [(''error'', PStr m)]), w2)
      | (Inl ex, w2) \<Rightarrow> (Inl ex, w2)
      | (Inr (output_path, selected_style), w2) \<Rightarrow>
          (Inr (jsonify 200
             [(''message'', PStr ''HTML file generated successfully''),
              (''output_path'', PStr output_path),
              (''template_style'', selected_style),
              (''contacts_count'', PInt (int (length (list_objs w2 (next_list w))))),
              (''download_url'', PStr (download_url_of fn))]),
           w2))"
proof -
  obtain r w1 where f: "fetch_contacts e w = (r, w1)" by (cases "fetch_contacts e w")
  have "r = Inr (next_list w)" "list_objs w1 (next_list w) \<noteq> []"
    using fetch_contacts_rows(1) [OF assms(1)] fetch_contacts_empty [OF assms(1)] assms(2) f
    by simp_all
  then show ?thesis
    by (simp add: api_generate_html_from_def f)
qed

lemma generate_template_missing:
  assumes "os_makedirs e (filesys w) (OUTPUT_DIR (app_config e)) = Inr f1"
    and "hashable (select_template_style e ts)"
    and "\<not> os_path_exists e f1
            (path_join (TEMPLATES_DIR (app_config e))
               (template_filename_of (select_template_style e ts)))"
  shows "generate_html_file e w contacts ts fn =
     (Inl (FileNotFoundError (''Template file not found: ''
             @ path_join (TEMPLATES_DIR (app_config e))
                 (template_filename_of (select_template_style e ts)))),
      w\<lparr>filesys := f1\<rparr>)"
  using assms by (simp add: generate_html_file_def load_template_def)



lemma sample_select:
  "db_select (sample_env a) (store sample_world) = Inr sample_rows"
  "db_select (sample_env a) (store empty_table_world) = Inr []"
  by (simp_all add: sample_env_def table_select_def sample_world_def initial_world_def
        sample_table_def empty_table_world_def)

lemma sample_world_simps:
  "filesys sample_world = sample_disk" "next_list sample_world = 0"
  "next_dict sample_world = 0" "sent sample_world = []"
  "filesys empty_table_world = sample_disk"
  by (simp_all add: sample_world_def initial_world_def empty_table_world_def)

lemma sample_rows_length: "length sample_rows = 3" "sample_rows \<noteq> []"
  by (simp_all add: sample_rows_def)



text \<open>
  C3, as far as it holds. When the store returns zero contacts, \<^verbatim>\<open>POST /api/generate\<close>
  answers 404 with the error "No contacts found", and the file system is as it was: the
  request fails before any directory is made or file written. When there are contacts,
  the output directory can be made and the file of the selected style's template does not
  exist, it answers 400 with the error "Template file not found: " followed by the path,
  and nothing but the output directory has been made.
\<close>

theorem api_generate_html_failures:
  "(\<forall>j. db_select e (store w) = Inr [] \<and> (\<not> truthy j \<or> (\<exists>d. j = PDict d)) \<longrightarrow>
        fst (api_generate_html e (Inr j) w)
          = jsonify 404 [(''error'', PStr ''No contacts found'')]
      \<and> filesys (snd (api_generate_html e (Inr j) w)) = filesys w)
   \<and> (\<forall>rows f1 d ts.
        db_select e (store w) = Inr rows \<and> rows \<noteq> []
        \<and> os_makedirs e (filesys w) (OUTPUT_DIR (app_config e)) = Inr f1
        \<and> ts = select_template_style e
                  (dict_get d ''template_style'' (PStr (TEMPLATE_STYLE (app_config e))))
        \<and> hashable ts
        \<and> \<not> os_path_exists e f1
               (path_join (TEMPLATES_DIR (app_config e)) (template_filename_of ts))
      \<longrightarrow> fst (api_generate_html e (Inr (PDict d)) w)
            = jsonify 400
                [(''error'', PStr (''Template file not found: ''
                    @ path_join (TEMPLATES_DIR (app_config e)) (template_filename_of ts)))]
          \<and> filesys (snd (api_generate_html e (Inr (PDict d)) w)) = f1)"
proof (intro conjI allI impI)
  fix j
  assume a: "db_select e (store w) = Inr [] \<and> (\<not> truthy j \<or> (\<exists>d. j = PDict d))"
  then have sel: "db_select e (store w) = Inr []" by simp
  from a have "\<exists>ts fn. api_generate_html_handler e (Inr j) w = api_generate_html_from e ts fn w"
    by (metis handler_dict handler_falsy)
  then obtain ts fn where
    h: "api_generate_html_handler e (Inr j) w = api_generate_html_from e ts fn w" by blast
  show "fst (api_generate_html e (Inr j) w)
          = jsonify 404 [(''error'', PStr ''No contacts found'')]"
    by (simp add: api_generate_html_def handle_db_errors_def h from_no_contacts [OF sel])
  show "filesys (snd (api_generate_html e (Inr j) w)) = filesys w"
    by (simp add: api_generate_html_def handle_db_errors_def h from_no_contacts [OF sel]
          fetch_contacts_rows(4) [OF sel])
next
  fix rows f1 d ts
  assume a: "db_select e (store w) = Inr rows \<and> rows \<noteq> []
        \<and> os_makedirs e (filesys w) (OUTPUT_DIR (app_config e)) = Inr f1
        \<and> ts = select_template_style e
                  (dict_get d ''template_style'' (PStr (TEMPLATE_STYLE (app_config e))))
        \<and> hashable ts
        \<and> \<not> os_path_exists e f1
               (path_join (TEMPLATES_DIR (app_config e)) (template_filename_of ts))"
  then have sel: "db_select e (store w) = Inr rows" and ne: "rows \<noteq> []" by simp_all
  have mk: "os_makedirs e (filesys (snd (fetch_contacts e w))) (OUTPUT_DIR (app_config e))
              = Inr f1"
    using a fetch_contacts_rows(4) [OF sel] by simp
  from a have ts: "ts = select_template_style e
                  (dict_get d ''template_style'' (PStr (TEMPLATE_STYLE (app_config e))))"
    by simp
  from a have hs: "hashable (select_template_style e
                  (dict_get d ''template_style'' (PStr (TEMPLATE_STYLE (app_config e)))))"
    by auto
  from a have nex: "\<not> os_path_exists e f1
               (path_join (TEMPLATES_DIR (app_config e))
                  (template_filename_of (select_template_style e
                  (dict_get d ''template_style'' (PStr (TEMPLATE_STYLE (app_config e)))))))"
    by auto
  note gen = generate_template_missing [OF mk hs nex,
      of "next_list w" "dict_get d ''output_filename'' (PStr ''index.html'')"]
  show "fst (api_generate_html e (Inr (PDict d)) w)
            = jsonify 400
                [(''error'', PStr (''Template file not found: ''
                    @ path_join (TEMPLATES_DIR (app_config e)) (template_filename_of ts)))]"
    unfolding ts
    by (simp add: api_generate_html_def handle_db_errors_def handler_dict
          from_contacts [OF sel ne] gen)
  show "filesys (snd (api_generate_html e (Inr (PDict d)) w)) = f1"
    by (simp add: api_generate_html_def handle_db_errors_def handler_dict
          from_contacts [OF sel ne] gen)
qed

text \<open>
  With an empty store the status is 404, not 400 (line 354).
\<close>

theorem api_generate_html_no_contacts_404:
  "db_select (sample_env (ok_response PNone)) (store empty_table_world) = Inr []
   \<and> status (fst (api_generate_html (sample_env (ok_response PNone)) (Inr PNone)
                    empty_table_world)) = 404
   \<and> status (fst (api_generate_html (sample_env (ok_response PNone)) (Inr PNone)
                    empty_table_world)) \<noteq> 400"
proof -
  have h: "api_generate_html_handler (sample_env (ok_response PNone)) (Inr PNone)
             empty_table_world
           = api_generate_html_from (sample_env (ok_response PNone))
               (PStr (TEMPLATE_STYLE (app_config (sample_env (ok_response PNone)))))
               (PStr ''index.html'') empty_table_world"
    by (simp add: handler_falsy)
  show ?thesis
    by (simp add: sample_select api_generate_html_def handle_db_errors_def h
          from_no_contacts [OF sample_select(2)] jsonify_def)
qed


theorem api_generate_html_failures_witness:
  "fst (api_generate_html (sample_env (ok_response PNone)) (Inr PNone) empty_table_world)
     = jsonify 404 [(''error'', PStr ''No contacts found'')]
   \<and> filesys (snd (api_generate_html (sample_env (ok_response PNone)) (Inr PNone)
                     empty_table_world)) = sample_disk
   \<and> fst (api_generate_html (sample_env (ok_response PNone))
            (Inr (PDict [(''template_style'', PStr ''dark'')])) sample_world)
     = jsonify 400
         [(''error'', PStr ''Template file not found: templates/dark_template.html'')]
   \<and> filesys (snd (api_generate_html (sample_env (ok_response PNone))
            (Inr (PDict [(''template_style'', PStr ''dark'')])) sample_world)) = sample_disk"
proof -
  note t1 = api_generate_html_failures [of "sample_env (ok_response PNone)" empty_table_world,
      THEN conjunct1, rule_format, where j = PNone]
  note t2 = api_generate_html_failures [of "sample_env (ok_response PNone)" sample_world,
      THEN conjunct2, rule_format, where rows = sample_rows and ?f1.0 = sample_disk
        and d = "[(''template_style'', PStr ''dark'')]" and ts = "PStr ''dark''"]
  have cfg: "app_config (sample_env (ok_response PNone)) = sample_config"
    "os_makedirs (sample_env (ok_response PNone)) = disk_makedirs"
    "os_path_exists (sample_env (ok_response PNone)) = disk_exists"
    by (simp_all add: sample_env_def)
  have dark: "template_filename_of (PStr ''dark'') = ''dark_template.html''"
    by (simp add: template_filename_of_def get_template_files_def)
  show ?thesis
    using t1 t2
    by (simp add: sample_select sample_world_simps sample_rows_length cfg sample_config_def
          disk_makedirs_def disk_exists_def select_template_style_def dict_get_def dark
          path_join_def sample_disk_def)
qed






section \<open>Properties of the validate endpoint\<close>

lemma validate_address_smarty_world:
  "snd (validate_address_smarty e w a c s z i t) =
     w\<lparr>sent := sent w @ (if str_truthy i \<and> str_truthy t then [smarty_request a c s z i t]
                           else [])\<rparr>"
  by (simp add: validate_address_smarty_def Let_def split: sum.split)

lemma validate_loop_append:
  "validate_loop e w (xs @ ys) v =
     (case validate_loop e w xs v of
        (Inl ex, w1) \<Rightarrow> (Inl ex, w1)
      | (Inr u, w1) \<Rightarrow> validate_loop e w1 ys v)"
  by (induction xs arbitrary: w) (simp_all split: prod.split sum.split)

lemma validate_loop_abort:
  assumes "validate_loop e w xs v = (Inr u, w1)"
    and "validate_contact e w1 c v = (Inl ex, w2)"
  shows "validate_loop e w (xs @ c # ys) v = (Inl ex, w2)"
  using assms by (simp add: validate_loop_append)

lemma validate_contact_store:
  assumes "validate_contact e w c v = (r, w')"
  shows "store w' = store w \<or> (\<exists>cid res. db_update e (store w) cid res = Inr (store w'))"
  using assms
  unfolding validate_contact_def update_validation_status_def Let_def
  by (auto simp: dict_setitem_def list_append_def
           split: sum.splits prod.splits
           dest!: arg_cong [where f = snd, of "validate_address_smarty _ _ _ _ _ _ _ _"]
           simp: validate_address_smarty_world)


lemma validate_contact_appends:
  assumes "validate_contact e w c v = (Inr u, w')"
  shows "list_objs w' = (list_objs w)(v := list_objs w v @ [c])"
  using assms
  unfolding validate_contact_def update_validation_status_def Let_def
  by (auto simp: dict_setitem_def list_append_def
           split: sum.splits prod.splits
           dest!: arg_cong [where f = snd, of "validate_address_smarty _ _ _ _ _ _ _ _"]
           simp: validate_address_smarty_world)

lemma validate_loop_appends:
  "validate_loop e w cs v = (Inr u, w') \<Longrightarrow> list_objs w' v = list_objs w v @ cs"
proof (induction cs arbitrary: w)
  case Nil
  then show ?case by simp
next
  case (Cons c cs)
  from Cons.prems obtain u1 w1 where
    step: "validate_contact e w c v = (Inr u1, w1)" and
    rest: "validate_loop e w1 cs v = (Inr u, w')"
    by (auto split: prod.splits sum.splits)
  from Cons.IH [OF rest] validate_contact_appends [OF step]
  show ?case by simp
qed

lemma fetch_contacts_order:
  assumes "db_select e (store w) = Inr rows"
  shows "map (dict_objs (snd (fetch_contacts e w)))
             (list_objs (snd (fetch_contacts e w)) (next_list w))
           = map (\<lambda>row. py_dict (zip columns row)) rows"
proof (rule nth_equalityI)
  show "length (map (dict_objs (snd (fetch_contacts e w)))
             (list_objs (snd (fetch_contacts e w)) (next_list w)))
        = length (map (\<lambda>row. py_dict (zip columns row)) rows)"
    by (simp add: fetch_contacts_rows(2) [OF assms])
next
  fix i
  assume "i < length (map (dict_objs (snd (fetch_contacts e w)))
             (list_objs (snd (fetch_contacts e w)) (next_list w)))"
  then have i: "i < length rows"
    by (simp add: fetch_contacts_rows(2) [OF assms])
  have "dict_objs (snd (fetch_contacts e w)) (next_dict w + i)
          = py_dict (zip columns (rows ! i))"
    using assms i fetch_rows_new_dicts [OF i, of "snd (new_list w [])" "next_list w"]
    by (simp add: fetch_contacts_def new_list_def)
  then show "map (dict_objs (snd (fetch_contacts e w)))
             (list_objs (snd (fetch_contacts e w)) (next_list w)) ! i
           = map (\<lambda>row. py_dict (zip columns row)) rows ! i"
    using i by (simp add: fetch_contacts_rows(2) [OF assms])
qed

lemma fetch_contacts_ref:
  assumes "fetch_contacts e w = (Inr contacts, w1)"
  shows "contacts = next_list w" and "next_list w1 = Suc (next_list w)"
  using assms
  by (auto simp: fetch_contacts_def new_list_def fetch_rows_frame split: sum.splits)

lemma api_validate_addresses_abort:
  assumes f: "fetch_contacts e w = (Inr contacts, w1)"
    and n: "new_list w1 [] = (v, w2)"
    and l: "list_objs w2 contacts = xs @ c # ys"
    and pre: "validate_loop e w2 xs v = (Inr u, w3)"
    and fail: "validate_contact e w3 c v = (Inl ex, w4)"
  shows "api_validate_addresses e w =
           (jsonify 500 [(''error'', PStr (if is_psycopg2_error ex
                                           then ''Database connection failed''
                                           else ''Internal server error''))], w4)"
proof -
  have "list_objs w2 contacts = list_objs w1 contacts"
    using n fetch_contacts_ref [OF f] by (auto simp: new_list_def)
  then have ne: "list_objs w1 contacts \<noteq> []" using l by (metis snoc_eq_iff_butlast append_is_Nil_conv list.distinct(1))
  have "validate_loop e w2 (list_objs w2 contacts) v = (Inl ex, w4)"
    unfolding l by (rule validate_loop_abort [OF pre fail])
  then show ?thesis
    using f n ne
    by (simp add: api_validate_addresses_def handle_db_errors_def
          api_validate_addresses_handler_def)
qed

lemma validate_contact_transport_error:
  assumes creds: "str_truthy (SMARTY_AUTH_ID (app_config e))"
      "str_truthy (SMARTY_AUTH_TOKEN (app_config e))"
    and fields: "map_of (dict_objs w c) ''address'' = Some a"
      "map_of (dict_objs w c) ''city'' = Some ci"
      "map_of (dict_objs w c) ''state'' = Some s"
      "map_of (dict_objs w c) ''zipcode'' = Some z"
      "map_of (dict_objs w c) ''id'' = Some cid"
      "map_of (dict_objs w c) ''first_name'' = Some fname"
      "map_of (dict_objs w c) ''last_name'' = Some lname"
    and net: "requests_get e (length (sent w))
               (smarty_request a ci s z (SMARTY_AUTH_ID (app_config e))
                  (SMARTY_AUTH_TOKEN (app_config e))) = Inl (RequestException m)"
    and upd: "db_update e (store w) cid (PStr ''Validation Failed'') = Inr d"
  shows "validate_contact e w c v =
     (Inr (),
      list_append
        (dict_setitem
           (w\<lparr>sent := sent w @ [smarty_request a ci s z (SMARTY_AUTH_ID (app_config e))
                                   (SMARTY_AUTH_TOKEN (app_config e))],
              store := d\<rparr>)
           c ''valid'' (PStr ''Validation Failed''))
        v c)"
  using assms
  by (simp add: validate_contact_def dict_getitem_def validate_address_smarty_def
        smarty_except_def update_validation_status_def dict_setitem_def list_append_def
        update_conv' Let_def)


lemma row_dict:
  "py_dict (zip columns [a, b, c, d, e, f, g, h, i]) =
     [(''id'', a), (''first_name'', b), (''last_name'', c), (''address'', d), (''city'', e),
      (''state'', f), (''zipcode'', g), (''country'', h), (''valid'', i)]"
  by (simp add: py_dict_def columns_def)

lemmas sample_run =
  api_validate_addresses_def handle_db_errors_def api_validate_addresses_handler_def
  fetch_contacts_def sample_env_def table_select_def sample_world_def
  initial_world_def sample_table_def sample_rows_def new_list_def new_dict_def list_append_def
  row_dict validate_contact_def dict_getitem_def validate_address_smarty_def smarty_except_def
  smarty_request_def update_validation_status_def table_update_def set_valid_def
  dict_setitem_def sample_config_def ok_response_def jsonify_def flaky_env_def refusing_world_def
  snapshot_def

text \<open>
  C4, as far as it holds. In \<^verbatim>\<open>POST /api/validate\<close> the contacts are those the store
  returned, in its order, and the loop goes through them from left to right, appending each
  finished contact to the result list. When the loop has finished the contacts \<open>done\<close>
  and the round of the next contact raises, the request is answered with status 500 in
  the world that round left behind: the store is the one reached by the updates of the
  earlier contacts, followed at most by the update of the failing contact itself. A
  transport error (\<^verbatim>\<open>RequestException\<close>) of the validator does not raise: the round
  completes, storing "Validation Failed" for that contact.
\<close>

theorem api_validate_addresses_order_and_abort:
  "(\<forall>rows. db_select e (store w) = Inr rows \<longrightarrow>
        fst (fetch_contacts e w) = Inr (next_list w)
      \<and> map (dict_objs (snd (fetch_contacts e w)))
             (list_objs (snd (fetch_contacts e w)) (next_list w))
          = map (\<lambda>row. py_dict (zip columns row)) rows)
   \<and> validate_loop e w (xs @ ys) v =
        (case validate_loop e w xs v of
           (Inl ex, w1) \<Rightarrow> (Inl ex, w1)
         | (Inr u, w1) \<Rightarrow> validate_loop e w1 ys v)
   \<and> (\<forall>u w'. validate_loop e w xs v = (Inr u, w') \<longrightarrow> list_objs w' v = list_objs w v @ xs)
   \<and> (\<forall>contacts w1 v' w2 done c rest u w3 ex w4.
        fetch_contacts e w = (Inr contacts, w1) \<and> new_list w1 [] = (v', w2)
        \<and> list_objs w2 contacts = done @ c # rest
        \<and> validate_loop e w2 done v' = (Inr u, w3)
        \<and> validate_contact e w3 c v' = (Inl ex, w4)
      \<longrightarrow> status (fst (api_validate_addresses e w)) = 500
          \<and> snd (api_validate_addresses e w) = w4
          \<and> (store w4 = store w3
               \<or> (\<exists>cid res. db_update e (store w3) cid res = Inr (store w4))))
   \<and> (\<forall>c a ci s z cid fname lname m d.
        str_truthy (SMARTY_AUTH_ID (app_config e))
        \<and> str_truthy (SMARTY_AUTH_TOKEN (app_config e))
        \<and> map_of (dict_objs w c) ''address'' = Some a
        \<and> map_of (dict_objs w c) ''city'' = Some ci
        \<and> map_of (dict_objs w c) ''state'' = Some s
        \<and> map_of (dict_objs w c) ''zipcode'' = Some z
        \<and> map_of (dict_objs w c) ''id'' = Some cid
        \<and> map_of (dict_objs w c) ''first_name'' = Some fname
        \<and> map_of (dict_objs w c) ''last_name'' = Some lname
        \<and> requests_get e (length (sent w))
               (smarty_request a ci s z (SMARTY_AUTH_ID (app_config e))
                  (SMARTY_AUTH_TOKEN (app_config e))) = Inl (RequestException m)
        \<and> db_update e (store w) cid (PStr ''Validation Failed'') = Inr d
      \<longrightarrow> fst (validate_contact e w c v) = Inr ()
          \<and> store (snd (validate_contact e w c v)) = d
          \<and> map_of (dict_objs (snd (validate_contact e w c v)) c) ''valid''
               = Some (PStr ''Validation Failed'')
          \<and> list_objs (snd (validate_contact e w c v)) v = list_objs w v @ [c])"
proof (intro conjI allI impI)
  fix rows
  assume sel: "db_select e (store w) = Inr rows"
  show "fst (fetch_contacts e w) = Inr (next_list w)"
    by (rule fetch_contacts_rows(1) [OF sel])
  show "map (dict_objs (snd (fetch_contacts e w)))
             (list_objs (snd (fetch_contacts e w)) (next_list w))
          = map (\<lambda>row. py_dict (zip columns row)) rows"
    by (rule fetch_contacts_order [OF sel])
next
  show "validate_loop e w (xs @ ys) v =
        (case validate_loop e w xs v of
           (Inl ex, w1) \<Rightarrow> (Inl ex, w1)
         | (Inr u, w1) \<Rightarrow> validate_loop e w1 ys v)"
    by (rule validate_loop_append)
next
  fix u w'
  assume "validate_loop e w xs v = (Inr u, w')"
  then show "list_objs w' v = list_objs w v @ xs"
    by (rule validate_loop_appends)
next
  fix contacts w1 v' w2 "done" c rest u w3 ex w4
  assume a: "fetch_contacts e w = (Inr contacts, w1) \<and> new_list w1 [] = (v', w2)
        \<and> list_objs w2 contacts = done @ c # rest
        \<and> validate_loop e w2 done v' = (Inr u, w3)
        \<and> validate_contact e w3 c v' = (Inl ex, w4)"
  then have f: "fetch_contacts e w = (Inr contacts, w1)"
    and n: "new_list w1 [] = (v', w2)"
    and l: "list_objs w2 contacts = done @ c # rest"
    and pre: "validate_loop e w2 done v' = (Inr u, w3)"
    and fail: "validate_contact e w3 c v' = (Inl ex, w4)"
    by simp_all
  note r = api_validate_addresses_abort [OF f n l pre fail]
  show "status (fst (api_validate_addresses e w)) = 500"
    by (simp add: r jsonify_def)
  show "snd (api_validate_addresses e w) = w4"
    by (simp add: r)
  from a have "validate_contact e w3 c v' = (Inl ex, w4)" by simp
  then show "store w4 = store w3
               \<or> (\<exists>cid res. db_update e (store w3) cid res = Inr (store w4))"
    by (rule validate_contact_store)
next
  fix c a ci s z cid fname lname m d
  assume a: "str_truthy (SMARTY_AUTH_ID (app_config e))
        \<and> str_truthy (SMARTY_AUTH_TOKEN (app_config e))
        \<and> map_of (dict_objs w c) ''address'' = Some a
        \<and> map_of (dict_objs w c) ''city'' = Some ci
        \<and> map_of (dict_objs w c) ''state'' = Some s
        \<and> map_of (dict_objs w c) ''zipcode'' = Some z
        \<and> map_of (dict_objs w c) ''id'' = Some cid
        \<and> map_of (dict_objs w c) ''first_name'' = Some fname
        \<and> map_of (dict_objs w c) ''last_name'' = Some lname
        \<and> requests_get e (length (sent w))
               (smarty_request a ci s z (SMARTY_AUTH_ID (app_config e))
                  (SMARTY_AUTH_TOKEN (app_config e))) = Inl (RequestException m)
        \<and> db_update e (store w) cid (PStr ''Validation Failed'') = Inr d"
  then have r: "validate_contact e w c v =
     (Inr (),
      list_append
        (dict_setitem
           (w\<lparr>sent := sent w @ [smarty_request a ci s z (SMARTY_AUTH_ID (app_config e))
                                   (SMARTY_AUTH_TOKEN (app_config e))],
              store := d\<rparr>)
           c ''valid'' (PStr ''Validation Failed''))
        v c)"
    by (elim conjE) (rule validate_contact_transport_error)
  show "fst (validate_contact e w c v) = Inr ()" by (simp add: r)
  show "store (snd (validate_contact e w c v)) = d"
    by (simp add: r list_append_def dict_setitem_def)
  show "map_of (dict_objs (snd (validate_contact e w c v)) c) ''valid''
               = Some (PStr ''Validation Failed'')"
    by (simp add: r list_append_def dict_setitem_def update_conv')
  show "list_objs (snd (validate_contact e w c v)) v = list_objs w v @ [c]"
    by (simp add: r list_append_def dict_setitem_def)
qed

text \<open>
  Three contacts, the validator call of the second raising a transport error: the request
  is answered with status 200, all three rows are updated and three requests were made.
\<close>

theorem api_validate_addresses_transport_error_200:
  "requests_get flaky_env 1
     (smarty_request (PStr ''2 Oak Ave'') (PStr ''Richmond'') (PStr ''VA'') (PStr ''23219'')
        (Some ''id'') (Some ''token'')) = Inl (RequestException ''timed out'')
   \<and> status (fst (api_validate_addresses flaky_env sample_world)) = 200
   \<and> map (\<lambda>row. row ! 8)
        (table_rows (store (snd (api_validate_addresses flaky_env sample_world))))
       = [PBool False, PStr ''Validation Failed'', PBool False]
   \<and> length (sent (snd (api_validate_addresses flaky_env sample_world))) = 3"
  by (simp add: sample_run)


theorem api_validate_addresses_order_and_abort_witness:
  "fst (fetch_contacts (sample_env (ok_response (PList []))) refusing_world) = Inr 0
   \<and> status (fst (api_validate_addresses (sample_env (ok_response (PList []))) refusing_world))
       = 500
   \<and> map (\<lambda>row. row ! 8)
        (table_rows (store (snd (api_validate_addresses (sample_env (ok_response (PList [])))
                                   refusing_world))))
       = [PBool False, PStr ''valid'', PBool False]
   \<and> list_objs (snd (api_validate_addresses (sample_env (ok_response (PList [])))
                       refusing_world)) 1 = [0]
   \<and> fst (validate_contact flaky_env
            (snd (validate_contact flaky_env
                    (snd (new_list (snd (fetch_contacts flaky_env sample_world)) [])) 0 1))
            1 1) = Inr ()"
proof -
  let ?E = "sample_env (ok_response (PList []))"
  let ?w1 = "snd (fetch_contacts ?E refusing_world)"
  let ?w2 = "snd (new_list ?w1 [])"
  let ?w3 = "snd (validate_loop ?E ?w2 [0] 1)"
  let ?w4 = "snd (validate_contact ?E ?w3 1 1)"
  note t = api_validate_addresses_order_and_abort [of ?E refusing_world "[0]" "[]" 1]
  have sel: "db_select ?E (store refusing_world) = Inr sample_rows"
    by (simp add: sample_run)
  have h1: "fetch_contacts ?E refusing_world = (Inr 0, ?w1)"
    by (simp add: prod_eq_iff sample_run)
  have h2: "new_list ?w1 [] = (1, ?w2)"
    by (simp add: prod_eq_iff sample_run)
  have h3: "list_objs ?w2 0 = [0] @ 1 # [2]"
    by (simp add: sample_run)
  have h4: "validate_loop ?E ?w2 [0] 1 = (Inr (), ?w3)"
    by (simp add: prod_eq_iff sample_run)
  have h5: "validate_contact ?E ?w3 1 1 = (Inl (Psycopg2Error ''update refused''), ?w4)"
    by (simp add: prod_eq_iff sample_run)
  from t sel have p1: "fst (fetch_contacts ?E refusing_world) = Inr 0"
    by (simp add: refusing_world_def initial_world_def)
  from t h1 h2 h3 h4 h5
  have p4: "status (fst (api_validate_addresses ?E refusing_world)) = 500
            \<and> snd (api_validate_addresses ?E refusing_world) = ?w4"
    by blast
  have rows: "map (\<lambda>row. row ! 8) (table_rows (store ?w4))
                = [PBool False, PStr ''valid'', PBool False]"
    by (simp add: sample_run)
  have lst: "list_objs ?w4 1 = [0]"
    by (simp add: sample_run)
  let ?v2 = "snd (new_list (snd (fetch_contacts flaky_env sample_world)) [])"
  let ?v3 = "snd (validate_contact flaky_env ?v2 0 1)"
  note t5 = api_validate_addresses_order_and_abort [of flaky_env ?v3 "[]" "[]" 1,
      THEN conjunct2, THEN conjunct2, THEN conjunct2, THEN conjunct2, rule_format,
      where c = 1 and a = "PStr ''2 Oak Ave''" and ci = "PStr ''Richmond''"
        and s = "PStr ''VA''" and z = "PStr ''23219''" and cid = "PInt 2"
        and fname = "PStr ''Alan''" and lname = "PStr ''Turing''" and m = "''timed out''"
        and d = "sample_table\<lparr>table_rows :=
                   map (set_valid (PInt 2) (PStr ''Validation Failed''))
                     (map (set_valid (PInt 1) (PBool False)) sample_rows)\<rparr>"]
  have p5: "fst (validate_contact flaky_env ?v3 1 1) = Inr ()"
    by (rule t5 [THEN conjunct1]) (simp add: sample_run)
  show ?thesis
    using p1 p4 rows lst p5 by simp
qed

end
